theory Spec2Isabelle
  imports Main
begin

section \<open>Values\<close>

text \<open>
  The server (src/server.js) is a set of Express handlers over one SQLite connection and
  the directory \<^verbatim>\<open>uploads/\<close>. A field of a request body is a JavaScript value; the
  connection binds it to an SQL value; a column stores it after its type affinity.

  Numbers are integers here: a JSON number with a fraction and an SQL REAL are outside the
  model, and \<open>JNum n\<close> stands for an integer that a double holds exactly and that
  \<^verbatim>\<open>String\<close> prints in full (below \<open>2 ^ 53\<close> in magnitude). A string is the list of
  the bytes of its UTF-8 text, which is what SQLite is given; text is taken to be
  well-formed UTF-8, as all text that comes from a JavaScript string is.
\<close>

datatype jsval =
    JUndefined
  | JNull
  | JBool bool
  | JNum int
  | JStr string
  | JObj string  \<comment> \<open>an object or array, with the text that String() gives for it\<close>

text \<open>The test \<^verbatim>\<open>!v\<close> of JavaScript is \<open>\<not> truthy v\<close>.\<close>

fun truthy :: "jsval \<Rightarrow> bool" where
  "truthy JUndefined = False"
| "truthy JNull = False"
| "truthy (JBool b) = b"
| "truthy (JNum n) = (n \<noteq> 0)"
| "truthy (JStr s) = (s \<noteq> [])"
| "truthy (JObj s) = True"

text \<open>A request body (or query) is an object: a missing key reads as \<^verbatim>\<open>undefined\<close>.\<close>

type_synonym body = "string \<rightharpoonup> jsval"

definition field :: "body \<Rightarrow> string \<Rightarrow> jsval" where
  "field b k = (case b k of None \<Rightarrow> JUndefined | Some v \<Rightarrow> v)"

subsection \<open>Decimal numerals\<close>

definition digit_char :: "nat \<Rightarrow> char" where
  "digit_char d = ''0123456789'' ! d"

fun show_nat :: "nat \<Rightarrow> string" where
  "show_nat n = (if n < 10 then [digit_char n] else show_nat (n div 10) @ [digit_char (n mod 10)])"

declare show_nat.simps [simp del]

definition show_int :: "int \<Rightarrow> string" where
  "show_int i = (if i < 0 then CHR ''-'' # show_nat (nat (- i)) else show_nat (nat i))"

definition digit_val :: "char \<Rightarrow> nat option" where
  "digit_val c = map_of (zip ''0123456789'' [0, 1, 2, 3, 4, 5, 6, 7, 8, 9]) c"

definition is_digit :: "char \<Rightarrow> bool" where
  "is_digit c = (digit_val c \<noteq> None)"

fun digits_val :: "nat \<Rightarrow> string \<Rightarrow> nat" where
  "digits_val acc [] = acc"
| "digits_val acc (c # cs) = digits_val (10 * acc + (case digit_val c of None \<Rightarrow> 0 | Some d \<Rightarrow> d)) cs"

text \<open>
  \<^verbatim>\<open>String(v)\<close>, as template literals, string concatenation and \<^verbatim>\<open>parseInt\<close> apply it.
\<close>

fun to_string :: "jsval \<Rightarrow> string" where
  "to_string JUndefined = ''undefined''"
| "to_string JNull = ''null''"
| "to_string (JBool b) = (if b then ''true'' else ''false'')"
| "to_string (JNum n) = show_int n"
| "to_string (JStr s) = s"
| "to_string (JObj s) = s"

definition js_whitespace :: "char \<Rightarrow> bool" where
  "js_whitespace c = (c \<in> set [CHR '' '', CHR 0x09, CHR 0x0A, CHR 0x0B, CHR 0x0C, CHR 0x0D])"

text \<open>
  \<^verbatim>\<open>parseInt(v, 10)\<close>: leading blanks, an optional sign, then the longest run of decimal
  digits; \<open>None\<close> is NaN.
\<close>

definition parseInt10 :: "jsval \<Rightarrow> int option" where
  "parseInt10 v =
     (let s = dropWhile js_whitespace (to_string v);
          neg = (s \<noteq> [] \<and> hd s = CHR ''-'');
          t = (if s \<noteq> [] \<and> (hd s = CHR ''-'' \<or> hd s = CHR ''+'') then tl s else s);
          ds = takeWhile is_digit t
      in if ds = [] then None
         else Some (if neg then - int (digits_val 0 ds) else int (digits_val 0 ds)))"

subsection \<open>SQL values, binding and affinity\<close>

datatype sqlval = SNull | SInt int | SText string

text \<open>
  How the sqlite3 binding turns a parameter into an SQL value: \<^verbatim>\<open>undefined\<close> is left
  unbound, which SQLite reads as NULL; a boolean is 0 or 1; every object or array is bound
  as the text \<^verbatim>\<open>[object Object]\<close>.
\<close>

fun bind :: "jsval \<Rightarrow> sqlval" where
  "bind JUndefined = SNull"
| "bind JNull = SNull"
| "bind (JBool b) = SInt (if b then 1 else 0)"
| "bind (JNum n) = SInt n"
| "bind (JStr s) = SText s"
| "bind (JObj s) = SText ''[object Object]''"

text \<open>
  Text that is an integer literal (an optional sign, then digits only) becomes an integer
  in a column of INTEGER affinity, and when it is compared with such a column. The other
  spellings of a number that SQLite reads (blanks around it, a fraction, an exponent) are
  outside the model, as REAL is; such text stays text.
\<close>

definition int_of_text :: "string \<Rightarrow> int option" where
  "int_of_text s =
     (let neg = (s \<noteq> [] \<and> hd s = CHR ''-'');
          t = (if s \<noteq> [] \<and> (hd s = CHR ''-'' \<or> hd s = CHR ''+'') then tl s else s)
      in if t = [] \<or> \<not> list_all is_digit t then None
         else Some (if neg then - int (digits_val 0 t) else int (digits_val 0 t)))"

fun int_affinity :: "sqlval \<Rightarrow> sqlval" where
  "int_affinity (SText s) = (case int_of_text s of None \<Rightarrow> SText s | Some n \<Rightarrow> SInt n)"
| "int_affinity v = v"

fun text_affinity :: "sqlval \<Rightarrow> sqlval" where
  "text_affinity (SInt n) = SText (show_int n)"
| "text_affinity v = v"

text \<open>The comparison \<^verbatim>\<open>a = b\<close> of a WHERE clause: NULL equals nothing.\<close>

fun sql_eq :: "sqlval \<Rightarrow> sqlval \<Rightarrow> bool" where
  "sql_eq SNull b = False"
| "sql_eq a SNull = False"
| "sql_eq a b = (a = b)"


text \<open>
  The order of ORDER BY: NULL first, then integers by value, then text byte by byte.
\<close>

fun text_le :: "string \<Rightarrow> string \<Rightarrow> bool" where
  "text_le [] t = True"
| "text_le (c # cs) [] = False"
| "text_le (c # cs) (d # ds) = ((of_char c :: nat) < of_char d \<or> (c = d \<and> text_le cs ds))"

fun sql_le :: "sqlval \<Rightarrow> sqlval \<Rightarrow> bool" where
  "sql_le SNull b = True"
| "sql_le (SInt a) SNull = False"
| "sql_le (SInt a) (SInt b) = (a \<le> b)"
| "sql_le (SInt a) (SText t) = True"
| "sql_le (SText s) (SText t) = text_le s t"
| "sql_le (SText s) b = False"

subsection \<open>LIKE\<close>

text \<open>
  The built-in LIKE folds the case of the ASCII letters only.
\<close>

definition lower :: "char \<Rightarrow> char" where
  "lower c = (case map_of (zip ''ABCDEFGHIJKLMNOPQRSTUVWXYZ'' ''abcdefghijklmnopqrstuvwxyz'') c of
                None \<Rightarrow> c | Some l \<Rightarrow> l)"

text \<open>
  The matcher is given pattern and operand as C strings: each ends at its first NUL.
\<close>

definition c_str :: "string \<Rightarrow> string" where
  "c_str s = takeWhile (\<lambda>c. c \<noteq> CHR 0x00) s"

text \<open>
  A character of the operand is one byte, or a lead byte (0xC0 and above) together with
  the continuation bytes (0x80 to 0xBF) that follow it.
\<close>

definition utf8_cont :: "char \<Rightarrow> bool" where
  "utf8_cont c = (128 \<le> (of_char c :: nat) \<and> (of_char c :: nat) < 192)"

definition skip_char :: "char \<Rightarrow> string \<Rightarrow> string" where
  "skip_char c cs = (if 192 \<le> (of_char c :: nat) then dropWhile utf8_cont cs else cs)"

text \<open>
  \<open>like_match p s\<close> is \<^verbatim>\<open>s LIKE p\<close> with no ESCAPE clause: \<^verbatim>\<open>%\<close> stands for any run
  of characters, \<^verbatim>\<open>_\<close> for any one character, and every other byte for itself up to
  the case of ASCII letters.
\<close>

function like_match :: "string \<Rightarrow> string \<Rightarrow> bool" where
  "like_match [] s = (s = [])"
| "like_match (p # ps) [] = (p = CHR ''%'' \<and> like_match ps [])"
| "like_match (p # ps) (c # cs) =
     (if p = CHR ''%'' then like_match ps (c # cs) \<or> like_match (p # ps) (skip_char c cs)
      else if p = CHR ''_'' then like_match ps (skip_char c cs)
      else lower p = lower c \<and> like_match ps cs)"
  by pat_completeness auto
termination
  by (relation "measures [\<lambda>(p, s). length p, \<lambda>(p, s). length s]")
    (auto simp add: skip_char_def intro: le_imp_less_Suc length_dropWhile_le)

text \<open>
  LIKE reads an integer operand as its decimal text; on NULL it is NULL, which no WHERE
  accepts. A pattern of more than 50000 bytes is an error of the statement
  (\<^verbatim>\<open>SQLITE_MAX_LIKE_PATTERN_LENGTH\<close>), raised for the first row that is examined.
\<close>

fun sql_like :: "sqlval \<Rightarrow> string \<Rightarrow> bool" where
  "sql_like SNull pat = False"
| "sql_like (SInt n) pat = like_match (c_str pat) (show_int n)"
| "sql_like (SText s) pat = like_match (c_str pat) (c_str s)"

definition like_pattern_limit :: nat where
  "like_pattern_limit = 50000"

section \<open>The stored state\<close>

text \<open>
  The two tables as lists of rows in rowid order, the AUTOINCREMENT counter of each, and
  the names of the files in \<^verbatim>\<open>uploads/\<close>. The column \<open>images\<close> holds the JSON text of
  a list of strings and is modelled by that list (\<open>None\<close> is NULL).
\<close>

record entry =
  id_col :: int
  firstName :: sqlval
  lastName :: sqlval
  roomNumber :: sqlval
  additionalText :: sqlval
  images :: "string list option"

record tsrow =
  id_ts :: int
  entryId :: sqlval
  timesheetRow :: sqlval
  roomNumber_ts :: sqlval
  signIn :: sqlval
  signOut :: sqlval

record db =
  entries :: "entry list"
  entries_seq :: int
  timesheets :: "tsrow list"
  timesheets_seq :: int
  uploads :: "string set"

definition empty_db :: db where
  "empty_db = \<lparr>entries = [], entries_seq = 0, timesheets = [], timesheets_seq = 0, uploads = {}\<rparr>"

text \<open>
  INTEGER PRIMARY KEY AUTOINCREMENT: one more than the largest rowid the table holds or has
  ever held.
\<close>

definition next_rowid :: "int \<Rightarrow> int list \<Rightarrow> int" where
  "next_rowid seq ids = fold max ids seq + 1"

text \<open>
  A statement either fails as a whole (\<open>None\<close>, the callback's \<^verbatim>\<open>err\<close>) or yields its
  result and the new state. \<open>err\<close> is a failure of the engine that the statement itself
  does not explain (I/O, a locked file).
\<close>

definition db_run :: "bool \<Rightarrow> (db \<Rightarrow> 'a option) \<Rightarrow> db \<Rightarrow> 'a option" where
  "db_run err stmt st = (if err then None else stmt st)"

subsection \<open>Statements on timesheets\<close>

text \<open>
  \<^verbatim>\<open>INSERT INTO timesheets (entryId, timesheetRow, roomNumber, signIn, signOut)\<close>;
  entryId and timesheetRow are NOT NULL. The FOREIGN KEY clause of the table is not enforced:
  the server never turns SQLite's foreign keys on.
\<close>

definition insert_timesheet ::
  "sqlval \<Rightarrow> sqlval \<Rightarrow> sqlval \<Rightarrow> sqlval \<Rightarrow> sqlval \<Rightarrow> db \<Rightarrow> db option" where
  "insert_timesheet e k rn si so st =
     (if e = SNull \<or> k = SNull then None
      else
        (let new = next_rowid (timesheets_seq st) (map id_ts (timesheets st));
             r = \<lparr>id_ts = new, entryId = int_affinity e, timesheetRow = int_affinity k,
                  roomNumber_ts = int_affinity rn, signIn = text_affinity si,
                  signOut = text_affinity so\<rparr>
         in Some (st\<lparr>timesheets := timesheets st @ [r], timesheets_seq := new\<rparr>)))"

text \<open>
  The trigger \<^verbatim>\<open>after_last_timesheetRow_delete\<close>: AFTER DELETE ON timesheets FOR EACH ROW,
  WHEN no row of OLD.entryId is left, insert (OLD.entryId, 0).
\<close>

definition after_last_timesheetRow_delete :: "tsrow \<Rightarrow> db \<Rightarrow> db option" where
  "after_last_timesheetRow_delete old st =
     (if length (filter (\<lambda>r. sql_eq (entryId r) (entryId old)) (timesheets st)) = 0
      then insert_timesheet (entryId old) (SInt 0) SNull SNull SNull st
      else Some st)"

text \<open>
  DELETE with a row trigger: SQLite first collects the rows the WHERE clause selects, then
  removes them one at a time, running the AFTER trigger after each removal.
\<close>

fun delete_timesheet_rows :: "tsrow list \<Rightarrow> db \<Rightarrow> db option" where
  "delete_timesheet_rows [] st = Some st"
| "delete_timesheet_rows (r # rs) st =
     (case after_last_timesheetRow_delete r
             (st\<lparr>timesheets := filter (\<lambda>x. id_ts x \<noteq> id_ts r) (timesheets st)\<rparr>) of
        None \<Rightarrow> None
      | Some st' \<Rightarrow> delete_timesheet_rows rs st')"

definition delete_from_timesheets :: "(tsrow \<Rightarrow> bool) \<Rightarrow> db \<Rightarrow> (nat \<times> db) option" where
  "delete_from_timesheets wh st =
     (let victims = filter wh (timesheets st)
      in case delete_timesheet_rows victims st of
           None \<Rightarrow> None
         | Some st' \<Rightarrow> Some (length victims, st'))"

definition update_timesheets :: "(tsrow \<Rightarrow> bool) \<Rightarrow> (tsrow \<Rightarrow> tsrow) \<Rightarrow> db \<Rightarrow> (nat \<times> db) option" where
  "update_timesheets wh upd st =
     Some (length (filter wh (timesheets st)),
           st\<lparr>timesheets := map (\<lambda>r. if wh r then upd r else r) (timesheets st)\<rparr>)"

subsection \<open>Statements on entries\<close>

text \<open>The trigger \<^verbatim>\<open>after_entry_insert\<close>: insert (NEW.id, 0, NULL, NULL, NULL).\<close>

definition after_entry_insert :: "entry \<Rightarrow> db \<Rightarrow> db option" where
  "after_entry_insert new st = insert_timesheet (SInt (id_col new)) (SInt 0) SNull SNull SNull st"

text \<open>
  The trigger \<^verbatim>\<open>after_entry_delete\<close>: \<^verbatim>\<open>DELETE FROM timesheets WHERE entryId = OLD.id\<close>.
  That DELETE is a statement like any other, so the trigger on timesheets runs for the
  rows it removes.
\<close>

definition after_entry_delete :: "entry \<Rightarrow> db \<Rightarrow> db option" where
  "after_entry_delete old st =
     map_option snd (delete_from_timesheets (\<lambda>r. sql_eq (entryId r) (SInt (id_col old))) st)"

definition insert_entry ::
  "sqlval \<Rightarrow> sqlval \<Rightarrow> sqlval \<Rightarrow> sqlval \<Rightarrow> string list \<Rightarrow> db \<Rightarrow> (int \<times> db) option" where
  "insert_entry fn ln rn at imgs st =
     (let new = next_rowid (entries_seq st) (map id_col (entries st));
          e = \<lparr>id_col = new, firstName = text_affinity fn, lastName = text_affinity ln,
               roomNumber = int_affinity rn, additionalText = text_affinity at,
               images = Some imgs\<rparr>
      in case after_entry_insert e (st\<lparr>entries := entries st @ [e], entries_seq := new\<rparr>) of
           None \<Rightarrow> None
         | Some st' \<Rightarrow> Some (new, st'))"

fun delete_entry_rows :: "entry list \<Rightarrow> db \<Rightarrow> db option" where
  "delete_entry_rows [] st = Some st"
| "delete_entry_rows (e # es) st =
     (case after_entry_delete e
             (st\<lparr>entries := filter (\<lambda>x. id_col x \<noteq> id_col e) (entries st)\<rparr>) of
        None \<Rightarrow> None
      | Some st' \<Rightarrow> delete_entry_rows es st')"

definition delete_from_entries :: "(entry \<Rightarrow> bool) \<Rightarrow> db \<Rightarrow> (nat \<times> db) option" where
  "delete_from_entries wh st =
     (let victims = filter wh (entries st)
      in case delete_entry_rows victims st of
           None \<Rightarrow> None
         | Some st' \<Rightarrow> Some (length victims, st'))"

definition update_entries :: "(entry \<Rightarrow> bool) \<Rightarrow> (entry \<Rightarrow> entry) \<Rightarrow> db \<Rightarrow> (nat \<times> db) option" where
  "update_entries wh upd st =
     Some (length (filter wh (entries st)),
           st\<lparr>entries := map (\<lambda>e. if wh e then upd e else e) (entries st)\<rparr>)"

text \<open>\<^verbatim>\<open>WHERE id = ?\<close> on entries; the parameter is read as a number where it can be.\<close>

definition id_is :: "sqlval \<Rightarrow> entry \<Rightarrow> bool" where
  "id_is p e = sql_eq (SInt (id_col e)) (int_affinity p)"

text \<open>\<^verbatim>\<open>WHERE entryId = ? AND timesheetRow = ?\<close> on timesheets.\<close>

definition row_is :: "sqlval \<Rightarrow> sqlval \<Rightarrow> tsrow \<Rightarrow> bool" where
  "row_is p k r = (sql_eq (entryId r) (int_affinity p) \<and> sql_eq (timesheetRow r) (int_affinity k))"

text \<open>
  \<^verbatim>\<open>db.get('SELECT images FROM entries WHERE id = ?')\<close>: the first row, or \<^verbatim>\<open>undefined\<close>
  (\<open>None\<close>) when there is none.
\<close>

definition select_images :: "sqlval \<Rightarrow> db \<Rightarrow> string list option option" where
  "select_images p st = map_option images (find (id_is p) (entries st))"


section \<open>The file store\<close>

text \<open>
  What multer's disk storage makes of an uploaded part: the file is named
  \<^verbatim>\<open>file.fieldname + '-' + Date.now()\<close> and written into \<^verbatim>\<open>uploads/\<close>.
  \<open>stamp\<close> is the reading of the clock, in milliseconds, when the file is named.
\<close>

record upfile =
  fieldname :: string
  originalname :: string
  stamp :: nat

definition filename :: "upfile \<Rightarrow> string" where
  "filename f = fieldname f @ ''-'' @ show_nat (stamp f)"

definition path :: "upfile \<Rightarrow> string" where
  "path f = ''uploads/'' @ filename f"

text \<open>
  \<^verbatim>\<open>upload.array(name, maxCount)\<close>: a part under another field name, or one part too many,
  is an error (which Express answers with status 500) and no file is kept.
\<close>

definition upload_array :: "string \<Rightarrow> nat \<Rightarrow> upfile list \<Rightarrow> db \<Rightarrow> db option" where
  "upload_array name maxCount files st =
     (if maxCount < length files \<or> filter (\<lambda>f. fieldname f \<noteq> name) files \<noteq> [] then None
      else Some (st\<lparr>uploads := uploads st \<union> set (map filename files)\<rparr>))"

text \<open>\<^verbatim>\<open>path.basename\<close> (POSIX): the last segment, trailing slashes dropped.\<close>

definition basename :: "string \<Rightarrow> string" where
  "basename p =
     rev (takeWhile (\<lambda>c. c \<noteq> CHR ''/'') (dropWhile (\<lambda>c. c = CHR ''/'') (rev p)))"

datatype fs_error = ENOENT | EOTHER

text \<open>
  \<^verbatim>\<open>fs.unlink(path.join(__dirname, 'uploads', name))\<close> for a name without a slash. The
  empty name, \<^verbatim>\<open>.\<close> and \<^verbatim>\<open>..\<close> make the path a directory, which unlink refuses.
\<close>

definition unlink :: "bool \<Rightarrow> string \<Rightarrow> db \<Rightarrow> fs_error + db" where
  "unlink io_err name st =
     (if io_err \<or> name = [] \<or> name = ''.'' \<or> name = ''..'' then Inl EOTHER
      else if name \<in> uploads st then Inr (st\<lparr>uploads := uploads st - {name}\<rparr>)
      else Inl ENOENT)"

section \<open>The handlers\<close>

text \<open>
  A handler maps the request and the state to what it answers and the state it leaves.
  \<open>Reply status payload\<close> is a response; \<open>Uncaught\<close> is an exception thrown inside a
  database callback, where nothing catches it: no response is sent. Of a JSON body the
  payload keeps the message and, where there is one, the list of images, entries or rows;
  the other members (an echoed id, \<^verbatim>\<open>lastID\<close>) play no part in what follows.
\<close>

datatype payload =
    Msg string
  | MsgImages string "string list"
  | Entries "entry list"
  | Rows "tsrow list"

datatype reply = Reply nat payload | Uncaught string

subsection \<open>Entries\<close>

text \<open>POST /submit-data\<close>

definition submit_data :: "bool \<Rightarrow> upfile list \<Rightarrow> body \<Rightarrow> db \<Rightarrow> reply \<times> db" where
  "submit_data err files b st =
     (case upload_array ''images'' 10 files st of
        None \<Rightarrow> (Reply 500 (Msg ''MulterError''), st)
      | Some st1 \<Rightarrow>
          (case db_run err
                  (insert_entry (bind (field b ''firstName'')) (bind (field b ''lastName''))
                     (bind (field b ''roomNumber'')) (bind (field b ''additionalText''))
                     (map path files)) st1 of
             None \<Rightarrow> (Reply 500 (Msg ''err.message''), st1)
           | Some (lastID, st2) \<Rightarrow>
               (Reply 200 (Msg (''Entry added with ID: '' @ show_int lastID)), st2)))"

text \<open>GET /get-data\<close>

definition get_data :: "bool \<Rightarrow> jsval \<Rightarrow> db \<Rightarrow> reply" where
  "get_data err q st =
     (if truthy q then
        (let query = ''%'' @ to_string q @ ''%''
         in if err \<or> (entries st \<noteq> [] \<and> like_pattern_limit < length query)
            then Reply 500 (Msg ''err.message'')
            else Reply 200 (Entries
                   (filter (\<lambda>e. sql_like (firstName e) query \<or> sql_like (lastName e) query \<or>
                                 sql_like (roomNumber e) query \<or> sql_like (additionalText e) query)
                      (entries st))))
      else if err then Reply 500 (Msg ''err.message'')
      else Reply 200 (Entries (entries st)))"

text \<open>POST /update-data\<close>

definition update_data :: "bool \<Rightarrow> body \<Rightarrow> db \<Rightarrow> reply \<times> db" where
  "update_data err b st =
     (if \<not> truthy (field b ''id'') then (Reply 400 (Msg ''ID is required''), st)
      else
        (case db_run err
                (update_entries (id_is (bind (field b ''id'')))
                   (\<lambda>e. e\<lparr>firstName := text_affinity (bind (field b ''firstName'')),
                           lastName := text_affinity (bind (field b ''lastName'')),
                           roomNumber := int_affinity (bind (field b ''roomNumber'')),
                           additionalText := text_affinity (bind (field b ''additionalText''))\<rparr>))
                st of
           None \<Rightarrow> (Reply 500 (Msg ''Failed to update entry''), st)
         | Some (changes, st') \<Rightarrow>
             if changes > 0 then (Reply 200 (Msg ''Entry updated''), st')
             else (Reply 404 (Msg ''Entry not found''), st')))"

text \<open>
  POST /delete-image. \<^verbatim>\<open>path.basename\<close> throws on anything but a string, in the handler
  itself, which Express answers with status 500. \<^verbatim>\<open>row.images\<close> is read inside the
  callback of \<^verbatim>\<open>db.get\<close>.
\<close>

definition delete_image :: "bool \<Rightarrow> bool \<Rightarrow> bool \<Rightarrow> body \<Rightarrow> db \<Rightarrow> reply \<times> db" where
  "delete_image unlink_err selectErr updateErr b st =
     (case field b ''imageName'' of
        JStr imageName \<Rightarrow>
          (let fname = basename imageName
           in case unlink unlink_err fname st of
                Inl e \<Rightarrow>
                  (Reply (if e = ENOENT then 404 else 500) (Msg ''Failed to delete image''), st)
              | Inr st1 \<Rightarrow>
                  if selectErr then (Reply 500 (Msg ''Failed to retrieve entry''), st1)
                  else
                    (case select_images (bind (field b ''entryId'')) st1 of
                       None \<Rightarrow> (Uncaught ''TypeError: Cannot read properties of undefined'', st1)
                     | Some row_images \<Rightarrow>
                         (let imgs = filter (\<lambda>img. basename img \<noteq> fname)
                                       (case row_images of None \<Rightarrow> [] | Some xs \<Rightarrow> xs)
                          in case db_run updateErr
                                    (update_entries (id_is (bind (field b ''entryId'')))
                                       (\<lambda>e. e\<lparr>images := Some imgs\<rparr>)) st1 of
                               None \<Rightarrow> (Reply 500 (Msg ''Failed to update entry''), st1)
                             | Some (changes, st2) \<Rightarrow>
                                 (Reply 200 (MsgImages ''Image deleted'' imgs), st2))))
      | _ \<Rightarrow> (Reply 500 (Msg ''TypeError''), st))"

text \<open>POST /delete-data\<close>

definition delete_data :: "bool \<Rightarrow> body \<Rightarrow> db \<Rightarrow> reply \<times> db" where
  "delete_data err b st =
     (case parseInt10 (field b ''id'') of
        None \<Rightarrow> (Reply 400 (Msg ''Invalid ID provided''), st)
      | Some n \<Rightarrow>
          (case db_run err (delete_from_entries (id_is (SInt n))) st of
             None \<Rightarrow> (Reply 500 (Msg ''Failed to delete entry''), st)
           | Some (changes, st') \<Rightarrow>
               if changes > 0 then (Reply 200 (Msg ''Entry deleted''), st')
               else (Reply 404 (Msg ''Entry not found''), st')))"

text \<open>POST /add-image\<close>

definition add_image :: "bool \<Rightarrow> bool \<Rightarrow> upfile list \<Rightarrow> body \<Rightarrow> db \<Rightarrow> reply \<times> db" where
  "add_image selectErr updateErr files b st =
     (case upload_array ''images'' 10 files st of
        None \<Rightarrow> (Reply 500 (Msg ''MulterError''), st)
      | Some st1 \<Rightarrow>
          if files = [] then (Reply 400 (Msg ''No image files provided''), st1)
          else if selectErr then (Reply 500 (Msg ''Internal server error''), st1)
          else
            (let imgs = (case select_images (bind (field b ''entryId'')) st1 of
                           Some (Some xs) \<Rightarrow> xs
                         | _ \<Rightarrow> [])
                        @ map (\<lambda>f. ''/uploads/'' @ filename f) files
             in case db_run updateErr
                       (update_entries (id_is (bind (field b ''entryId'')))
                          (\<lambda>e. e\<lparr>images := Some imgs\<rparr>)) st1 of
                  None \<Rightarrow> (Reply 500 (Msg ''Internal server error''), st1)
                | Some (changes, st2) \<Rightarrow>
                    (Reply 200 (MsgImages ''New images added to entry'' imgs), st2)))"

subsection \<open>Timesheets\<close>

text \<open>
  GET /timesheets/:entryId, as registered first: the rows of the entry, ORDER BY
  timesheetRow ASC (rows of equal key in rowid order).
\<close>

fun insort_row :: "tsrow \<Rightarrow> tsrow list \<Rightarrow> tsrow list" where
  "insort_row r [] = [r]"
| "insort_row r (x # xs) =
     (if sql_le (timesheetRow r) (timesheetRow x) then r # x # xs else x # insort_row r xs)"

definition order_by_timesheetRow :: "tsrow list \<Rightarrow> tsrow list" where
  "order_by_timesheetRow rs = foldr insort_row rs []"

definition timesheets_entryId :: "bool \<Rightarrow> string \<Rightarrow> db \<Rightarrow> reply" where
  "timesheets_entryId err p st =
     (if err then Reply 500 (Msg ''Error fetching timesheets data'')
      else Reply 200 (Rows (order_by_timesheetRow
             (filter (\<lambda>r. sql_eq (entryId r) (int_affinity (SText p))) (timesheets st)))))"

text \<open>POST /timesheets/newRow\<close>

definition timesheets_newRow :: "bool \<Rightarrow> body \<Rightarrow> db \<Rightarrow> reply \<times> db" where
  "timesheets_newRow err b st =
     (case db_run err
             (insert_timesheet (bind (field b ''entryId'')) (bind (field b ''timesheetRow''))
                SNull SNull SNull) st of
        None \<Rightarrow> (Reply 500 (Msg ''Error on signIn''), st)
      | Some st' \<Rightarrow> (Reply 200 (Msg ''SignIn successful''), st'))"

text \<open>POST /timesheets/signIn\<close>

definition timesheets_signIn :: "bool \<Rightarrow> body \<Rightarrow> db \<Rightarrow> reply \<times> db" where
  "timesheets_signIn err b st =
     (case db_run err
             (update_timesheets
                (row_is (bind (field b ''entryId'')) (bind (field b ''timesheetRow'')))
                (\<lambda>r. r\<lparr>roomNumber_ts := int_affinity (bind (field b ''roomNumber'')),
                        signIn := text_affinity (bind (field b ''signIn''))\<rparr>)) st of
        None \<Rightarrow> (Reply 500 (Msg ''Error on signIn''), st)
      | Some (changes, st') \<Rightarrow> (Reply 200 (Msg ''SignIn successful''), st'))"

text \<open>DELETE /timesheets/deleteRow\<close>

definition timesheets_deleteRow :: "bool \<Rightarrow> body \<Rightarrow> db \<Rightarrow> reply \<times> db" where
  "timesheets_deleteRow err b st =
     (case db_run err
             (delete_from_timesheets
                (row_is (bind (field b ''entryId'')) (bind (field b ''timesheetRow'')))) st of
        None \<Rightarrow> (Reply 500 (Msg ''Error on delete''), st)
      | Some (changes, st') \<Rightarrow> (Reply 200 (Msg ''Row deleted successfully''), st'))"

section \<open>The search, in the words of the specification\<close>







section \<open>The search, as amended\<close>





section \<open>Integer keys\<close>

text \<open>
  A key of a request that is an integer: a JSON integer, or the decimal text of one as
  \<^verbatim>\<open>String\<close> prints it. The binding and the engine read both as that integer.
\<close>

definition safe_int :: "int \<Rightarrow> bool" where
  "safe_int n = (- 9007199254740992 < n \<and> n < 9007199254740992)"

fun int_key :: "jsval \<Rightarrow> int option" where
  "int_key (JNum n) = (if safe_int n then Some n else None)"
| "int_key (JStr s) =
     (case int_of_text s of
        None \<Rightarrow> None
      | Some n \<Rightarrow> if safe_int n \<and> show_int n = s then Some n else None)"
| "int_key v = None"

section \<open>Row zero\<close>

text \<open>The row that the triggers insert for an entry: index 0, every other column NULL.\<close>

definition row_zero :: "int \<Rightarrow> sqlval \<Rightarrow> tsrow" where
  "row_zero n e = \<lparr>id_ts = n, entryId = e, timesheetRow = SInt 0, roomNumber_ts = SNull,
                    signIn = SNull, signOut = SNull\<rparr>"


section \<open>Example states\<close>

text \<open>
  The store after one entry (Alice, room 101, no images) has been submitted to the empty
  database, and after a second one (Bob).
\<close>

definition alice_db :: db where
  "alice_db = snd (submit_data False []
     [''firstName'' \<mapsto> JStr ''Alice'', ''roomNumber'' \<mapsto> JStr ''101''] empty_db)"

definition alice_bob_db :: db where
  "alice_bob_db = snd (submit_data False [] [''firstName'' \<mapsto> JStr ''Bob''] alice_db)"

section \<open>Evaluation on concrete requests\<close>

lemmas run =
  field_def db_run_def empty_db_def next_rowid_def Let_def
  show_int_def show_nat.simps digit_char_def digit_val_def is_digit_def int_of_text_def
  parseInt10_def js_whitespace_def
  insert_timesheet_def after_last_timesheetRow_delete_def delete_from_timesheets_def
  update_timesheets_def after_entry_insert_def after_entry_delete_def insert_entry_def
  delete_from_entries_def update_entries_def id_is_def row_is_def select_images_def
  filename_def path_def upload_array_def basename_def unlink_def
  submit_data_def get_data_def update_data_def delete_image_def delete_data_def add_image_def
  order_by_timesheetRow_def timesheets_entryId_def timesheets_newRow_def timesheets_signIn_def
  timesheets_deleteRow_def lower_def row_zero_def
  c_str_def utf8_cont_def skip_char_def like_pattern_limit_def

section \<open>Facts about the engine\<close>

lemma sql_eq_iff: "sql_eq a b \<longleftrightarrow> a = b \<and> a \<noteq> SNull"
  by (cases a; cases b) auto

lemma int_affinity_idem: "int_affinity (int_affinity v) = int_affinity v"
  by (cases v) (auto split: option.splits)

lemma fold_max_ge: "(a::int) \<le> fold max ids a"
  by (induction ids arbitrary: a) (auto intro: order_trans [OF max.cobounded2])

lemma fold_max_mem: "(i::int) \<in> set ids \<Longrightarrow> i \<le> fold max ids a"
proof (induction ids arbitrary: a)
  case Nil
  then show ?case by simp
next
  case (Cons x xs)
  show ?case
  proof (cases "i = x")
    case True
    have "x \<le> max x a" by simp
    also have "max x a \<le> fold max xs (max x a)" by (rule fold_max_ge)
    finally show ?thesis using True by simp
  next
    case False
    with Cons show ?thesis by simp
  qed
qed

lemma next_rowid_fresh: "i \<in> set ids \<Longrightarrow> i < next_rowid seq ids"
  using fold_max_mem [of i ids seq] by (simp add: next_rowid_def)

lemma next_rowid_seq: "seq < next_rowid seq ids"
  using fold_max_ge [of seq ids] by (simp add: next_rowid_def)

lemma map_if_no_hit: "filter wh xs = [] \<Longrightarrow> map (\<lambda>e. if wh e then upd e else e) xs = xs"
  by (induction xs) (auto split: if_splits)

lemma int_key_bind: "int_key v = Some n \<Longrightarrow> int_affinity (bind v) = SInt n"
  by (cases v) (auto split: if_splits option.splits)

lemma id_is_int_key: "int_key v = Some n \<Longrightarrow> id_is (bind v) e \<longleftrightarrow> id_col e = n"
  by (auto simp add: id_is_def int_key_bind)

lemma row_is_int_key:
  "int_key v = Some i \<Longrightarrow> int_key w = Some k \<Longrightarrow>
   row_is (bind v) (bind w) r \<longleftrightarrow> entryId r = SInt i \<and> timesheetRow r = SInt k"
  by (auto simp add: row_is_def int_key_bind sql_eq_iff)

lemma upload_array_ok:
  "length files \<le> n \<Longrightarrow> list_all (\<lambda>f. fieldname f = name) files \<Longrightarrow>
   upload_array name n files st = Some (st\<lparr>uploads := uploads st \<union> set (map filename files)\<rparr>)"
  by (auto simp add: upload_array_def filter_empty_conv list_all_iff)

section \<open>Creating an entry\<close>

text \<open>
  C1, as amended. Creating an entry appends to timesheets exactly one row: it has the new
  id, timesheetRow 0, and roomNumber, signIn and signOut NULL. When no stored row has that
  id with timesheetRow 0 already, it is afterwards the only such row.
\<close>

theorem submit_data_row_zero:
  assumes "length files \<le> 10" and "list_all (\<lambda>f. fieldname f = ''images'') files" and "\<not> err"
  shows "fst (submit_data err files b st)
           = Reply 200 (Msg (''Entry added with ID: ''
               @ show_int (next_rowid (entries_seq st) (map id_col (entries st)))))
       \<and> map id_col (entries (snd (submit_data err files b st)))
           = map id_col (entries st) @ [next_rowid (entries_seq st) (map id_col (entries st))]
       \<and> timesheets (snd (submit_data err files b st))
           = timesheets st
             @ [row_zero (next_rowid (timesheets_seq st) (map id_ts (timesheets st)))
                  (SInt (next_rowid (entries_seq st) (map id_col (entries st))))]
       \<and> (filter (row_is (SInt (next_rowid (entries_seq st) (map id_col (entries st)))) (SInt 0))
             (timesheets st) = []
          \<longrightarrow> filter (row_is (SInt (next_rowid (entries_seq st) (map id_col (entries st)))) (SInt 0))
                 (timesheets (snd (submit_data err files b st)))
               = [row_zero (next_rowid (timesheets_seq st) (map id_ts (timesheets st)))
                    (SInt (next_rowid (entries_seq st) (map id_col (entries st))))])"
  using assms
  by (simp add: submit_data_def upload_array_ok db_run_def insert_entry_def after_entry_insert_def
      insert_timesheet_def row_zero_def row_is_def Let_def)

theorem submit_data_row_zero_witness:
  "fst (submit_data False [] [''firstName'' \<mapsto> JStr ''Alice'', ''roomNumber'' \<mapsto> JStr ''101''] empty_db)
     = Reply 200 (Msg ''Entry added with ID: 1'')
   \<and> filter (row_is (SInt 1) (SInt 0))
        (timesheets (snd (submit_data False []
           [''firstName'' \<mapsto> JStr ''Alice'', ''roomNumber'' \<mapsto> JStr ''101''] empty_db)))
     = [row_zero 1 (SInt 1)]
   \<and> timesheets (snd (submit_data False []
           [''firstName'' \<mapsto> JStr ''Alice'', ''roomNumber'' \<mapsto> JStr ''101''] empty_db))
     = [\<lparr>id_ts = 1, entryId = SInt 1, timesheetRow = SInt 0, roomNumber_ts = SNull,
          signIn = SNull, signOut = SNull\<rparr>]"
  using submit_data_row_zero [of "[]" False
      "[''firstName'' \<mapsto> JStr ''Alice'', ''roomNumber'' \<mapsto> JStr ''101'']" empty_db]
  by (simp add: run)

theorem submit_data_two_rows_zero:
  "fst (timesheets_newRow False [''entryId'' \<mapsto> JNum 1, ''timesheetRow'' \<mapsto> JNum 0] empty_db)
     = Reply 200 (Msg ''SignIn successful'')
   \<and> fst (submit_data False [] Map.empty
        (snd (timesheets_newRow False [''entryId'' \<mapsto> JNum 1, ''timesheetRow'' \<mapsto> JNum 0] empty_db)))
     = Reply 200 (Msg ''Entry added with ID: 1'')
   \<and> length (filter (row_is (SInt 1) (SInt 0))
        (timesheets (snd (submit_data False [] Map.empty
          (snd (timesheets_newRow False [''entryId'' \<mapsto> JNum 1, ''timesheetRow'' \<mapsto> JNum 0] empty_db))))))
     = 2"
  by (simp add: run)

lemma alice_db_eq:
  "alice_db =
     \<lparr>entries = [\<lparr>id_col = 1, firstName = SText ''Alice'', lastName = SNull,
                   roomNumber = SInt 101, additionalText = SNull, images = Some []\<rparr>],
      entries_seq = 1,
      timesheets = [row_zero 1 (SInt 1)],
      timesheets_seq = 1, uploads = {}\<rparr>"
  by (simp add: alice_db_def run)

lemma alice_bob_db_eq:
  "alice_bob_db =
     \<lparr>entries = [\<lparr>id_col = 1, firstName = SText ''Alice'', lastName = SNull,
                   roomNumber = SInt 101, additionalText = SNull, images = Some []\<rparr>,
                 \<lparr>id_col = 2, firstName = SText ''Bob'', lastName = SNull,
                   roomNumber = SNull, additionalText = SNull, images = Some []\<rparr>],
      entries_seq = 2,
      timesheets = [row_zero 1 (SInt 1), row_zero 2 (SInt 2)],
      timesheets_seq = 2, uploads = {}\<rparr>"
  by (simp add: alice_bob_db_def alice_db_eq run)

section \<open>Updating an entry\<close>

text \<open>
  C7. An update leaves timesheets, both counters and the files as they were. In entries it
  keeps every row's id and images and changes nothing but firstName, lastName, roomNumber
  and additionalText; when it changes a row, every row with another id stays as it was;
  and when the id of the request is an integer \<open>n\<close>, every row whose id is not \<open>n\<close>
  stays as it was.
\<close>

theorem update_data_frame:
  "timesheets (snd (update_data err b st)) = timesheets st
   \<and> timesheets_seq (snd (update_data err b st)) = timesheets_seq st
   \<and> entries_seq (snd (update_data err b st)) = entries_seq st
   \<and> uploads (snd (update_data err b st)) = uploads st
   \<and> list_all2
        (\<lambda>e e'. id_col e' = id_col e \<and> images e' = images e
               \<and> e' = e\<lparr>firstName := firstName e', lastName := lastName e',
                        roomNumber := roomNumber e', additionalText := additionalText e'\<rparr>)
        (entries st) (entries (snd (update_data err b st)))
   \<and> list_all2
        (\<lambda>e e'. e' \<noteq> e \<longrightarrow>
           list_all2 (\<lambda>x x'. id_col x \<noteq> id_col e \<longrightarrow> x' = x)
             (entries st) (entries (snd (update_data err b st))))
        (entries st) (entries (snd (update_data err b st)))
   \<and> (int_key (field b ''id'') = Some n \<longrightarrow>
        list_all2 (\<lambda>e e'. id_col e \<noteq> n \<longrightarrow> e' = e)
          (entries st) (entries (snd (update_data err b st))))"
proof -
  define hit where "hit = id_is (bind (field b ''id''))"
  have same_id: "id_col x = id_col e" if "hit x" and "hit e" for x e
  proof -
    have "SInt (id_col x) = SInt (id_col e)"
      using that by (simp add: hit_def id_is_def sql_eq_iff)
    then show ?thesis by simp
  qed
  have by_key: "id_col e = n" if "hit e" and "int_key (field b ''id'') = Some n" for e
    using that id_is_int_key [of "field b ''id''" n e] by (simp add: hit_def)
  define f :: "entry \<Rightarrow> entry" where
    "f = (\<lambda>e. e\<lparr>firstName := text_affinity (bind (field b ''firstName'')),
                   lastName := text_affinity (bind (field b ''lastName'')),
                   roomNumber := int_affinity (bind (field b ''roomNumber'')),
                   additionalText := text_affinity (bind (field b ''additionalText''))\<rparr>)"
  have f_frame: "f e = e\<lparr>firstName := firstName (f e), lastName := lastName (f e),
                         roomNumber := roomNumber (f e),
                         additionalText := additionalText (f e)\<rparr>" for e
    by (simp add: f_def)
  have "snd (update_data err b st) = st
        \<or> snd (update_data err b st)
           = st\<lparr>entries := map (\<lambda>e. if hit e then f e else e) (entries st)\<rparr>"
    by (simp add: update_data_def db_run_def update_entries_def hit_def f_def)
  then consider (same) "snd (update_data err b st) = st"
    | (upd) "snd (update_data err b st)
             = st\<lparr>entries := map (\<lambda>e. if hit e then f e else e) (entries st)\<rparr>"
    by blast
  then show ?thesis
  proof cases
    case same
    then show ?thesis by (simp add: list.rel_refl)
  next
    case upd
    have keep: "id_col (f e) = id_col e \<and> images (f e) = images e" for e
      by (simp add: f_def)
    have others: "list_all2 (\<lambda>x x'. id_col x \<noteq> id_col e \<longrightarrow> x' = x)
                    (entries st) (map (\<lambda>e. if hit e then f e else e) (entries st))"
      if "hit e" for e
      using same_id [OF _ that]
      by (auto simp add: list_all2_map2 intro!: list.rel_refl_strong)
    define new where "new = map (\<lambda>e. if hit e then f e else e) (entries st)"
    have "(if hit e then f e else e) \<noteq> e \<longrightarrow>
            list_all2 (\<lambda>x x'. id_col x \<noteq> id_col e \<longrightarrow> x' = x) (entries st) new" for e
    proof (cases "hit e")
      case True
      then show ?thesis using others [OF True] by (simp only: new_def) blast
    next
      case False
      then show ?thesis by simp
    qed
    then have "list_all2
            (\<lambda>e e'. e' \<noteq> e \<longrightarrow>
               list_all2 (\<lambda>x x'. id_col x \<noteq> id_col e \<longrightarrow> x' = x) (entries st) new)
            (entries st) (map (\<lambda>e. if hit e then f e else e) (entries st))"
      unfolding list_all2_map2 by (intro list.rel_refl_strong)
    then have "list_all2
            (\<lambda>e e'. e' \<noteq> e \<longrightarrow>
               list_all2 (\<lambda>x x'. id_col x \<noteq> id_col e \<longrightarrow> x' = x)
                 (entries st) (map (\<lambda>e. if hit e then f e else e) (entries st)))
            (entries st) (map (\<lambda>e. if hit e then f e else e) (entries st))"
      by (simp only: new_def)
    moreover have "list_all2
            (\<lambda>e e'. id_col e' = id_col e \<and> images e' = images e
                   \<and> e' = e\<lparr>firstName := firstName e', lastName := lastName e',
                            roomNumber := roomNumber e', additionalText := additionalText e'\<rparr>)
            (entries st) (map (\<lambda>e. if hit e then f e else e) (entries st))"
      using keep f_frame by (auto simp add: list_all2_map2 intro!: list.rel_refl_strong)
    moreover have "list_all2 (\<lambda>e e'. id_col e \<noteq> n \<longrightarrow> e' = e)
            (entries st) (map (\<lambda>e. if hit e then f e else e) (entries st))"
      if "int_key (field b ''id'') = Some n"
      using by_key [OF _ that] by (auto simp add: list_all2_map2 intro!: list.rel_refl_strong)
    ultimately show ?thesis by (simp add: upd)
  qed
qed

theorem update_data_frame_witness:
  "fst (update_data False [''id'' \<mapsto> JNum 1, ''firstName'' \<mapsto> JStr ''Alicia''] alice_bob_db)
     = Reply 200 (Msg ''Entry updated'')
   \<and> timesheets (snd (update_data False
        [''id'' \<mapsto> JNum 1, ''firstName'' \<mapsto> JStr ''Alicia''] alice_bob_db))
     = timesheets alice_bob_db
   \<and> entries (snd (update_data False
        [''id'' \<mapsto> JNum 1, ''firstName'' \<mapsto> JStr ''Alicia''] alice_bob_db))
     = [\<lparr>id_col = 1, firstName = SText ''Alicia'', lastName = SNull,
          roomNumber = SNull, additionalText = SNull, images = Some []\<rparr>,
        \<lparr>id_col = 2, firstName = SText ''Bob'', lastName = SNull,
          roomNumber = SNull, additionalText = SNull, images = Some []\<rparr>]"
  using update_data_frame [of False
      "[''id'' \<mapsto> JNum 1, ''firstName'' \<mapsto> JStr ''Alicia'']" alice_bob_db 1]
  by (simp add: alice_bob_db_eq run)

text \<open>
  C8, as amended. An id that is missing or falsy (\<^verbatim>\<open>undefined\<close>, \<^verbatim>\<open>null\<close>, 0, the empty
  string, \<^verbatim>\<open>false\<close>) is answered with 400; a truthy id that is an integer, or the
  decimal text of one, and that no entry has is answered, unless the engine fails, with 404;
  in both cases the state is left as it was.
\<close>

theorem update_data_missing_or_unknown_id:
  "(\<not> truthy (field b ''id'') \<longrightarrow>
      update_data err b st = (Reply 400 (Msg ''ID is required''), st))
   \<and> (truthy (field b ''id'') \<and> \<not> err \<and> int_key (field b ''id'') = Some n
        \<and> filter (\<lambda>e. id_col e = n) (entries st) = []
      \<longrightarrow> update_data err b st = (Reply 404 (Msg ''Entry not found''), st))"
proof -
  have "filter (id_is (bind (field b ''id''))) (entries st) = []"
    if "int_key (field b ''id'') = Some n" and "filter (\<lambda>e. id_col e = n) (entries st) = []"
    using that id_is_int_key [of "field b ''id''" n] by (simp add: filter_empty_conv)
  then show ?thesis
    by (auto simp add: update_data_def db_run_def update_entries_def map_if_no_hit)
qed

theorem update_data_missing_or_unknown_id_witness:
  "update_data False [''firstName'' \<mapsto> JStr ''Eve''] alice_db
     = (Reply 400 (Msg ''ID is required''), alice_db)
   \<and> update_data False [''id'' \<mapsto> JNum 999, ''firstName'' \<mapsto> JStr ''Eve''] alice_db
     = (Reply 404 (Msg ''Entry not found''), alice_db)
   \<and> update_data False [''id'' \<mapsto> JStr ''999'', ''firstName'' \<mapsto> JStr ''Eve''] alice_db
     = (Reply 404 (Msg ''Entry not found''), alice_db)"
proof -
  have k1: "int_key (field [''id'' \<mapsto> JNum 999, ''firstName'' \<mapsto> JStr ''Eve''] ''id'') = Some 999"
    by (simp add: field_def safe_int_def)
  have k2: "int_key (field [''id'' \<mapsto> JStr ''999'', ''firstName'' \<mapsto> JStr ''Eve''] ''id'') = Some 999"
    by (simp add: run safe_int_def)
  have none: "filter (\<lambda>e. id_col e = 999) (entries alice_db) = []"
    by (simp add: alice_db_eq)
  show ?thesis
    using update_data_missing_or_unknown_id [of "[''firstName'' \<mapsto> JStr ''Eve'']" False alice_db 0]
      update_data_missing_or_unknown_id
        [of "[''id'' \<mapsto> JNum 999, ''firstName'' \<mapsto> JStr ''Eve'']" False alice_db 999]
      update_data_missing_or_unknown_id
        [of "[''id'' \<mapsto> JStr ''999'', ''firstName'' \<mapsto> JStr ''Eve'']" False alice_db 999]
      k1 k2 none
    by (simp add: field_def)
qed

text \<open>
  The claim as written fails at the id 0: it is present and no entry has it, and the answer
  is 400, not 404.
\<close>

theorem update_data_id_zero_not_404:
  "field [''id'' \<mapsto> JNum 0, ''firstName'' \<mapsto> JStr ''Eve''] ''id'' = JNum 0
   \<and> filter (id_is (bind (JNum 0))) (entries alice_db) = []
   \<and> int_key (JNum 0) = Some 0
   \<and> filter (\<lambda>e. id_col e = 0) (entries alice_db) = []
   \<and> fst (update_data False [''id'' \<mapsto> JNum 0, ''firstName'' \<mapsto> JStr ''Eve''] alice_db)
       = Reply 400 (Msg ''ID is required'')
   \<and> fst (update_data False [''id'' \<mapsto> JNum 0, ''firstName'' \<mapsto> JStr ''Eve''] alice_db)
       \<noteq> Reply 404 (Msg ''Entry not found'')"
  by (simp add: alice_db_eq run safe_int_def)

text \<open>
  C10. An id that is present but 0 or the empty string is answered with 400 "ID is
  required", exactly as a request with no id is.
\<close>

theorem update_data_falsy_id:
  "b ''id'' = Some (JNum 0) \<or> b ''id'' = Some (JStr []) \<Longrightarrow>
   update_data err b st = (Reply 400 (Msg ''ID is required''), st)
   \<and> update_data err b st = update_data err (b(''id'' := None)) st"
  by (auto simp add: update_data_def field_def)

theorem update_data_falsy_id_witness:
  "update_data False [''id'' \<mapsto> JNum 0] alice_db = (Reply 400 (Msg ''ID is required''), alice_db)
   \<and> update_data False [''id'' \<mapsto> JStr ''''] alice_db
       = (Reply 400 (Msg ''ID is required''), alice_db)"
  using update_data_falsy_id [of "[''id'' \<mapsto> JNum 0]" False alice_db]
    update_data_falsy_id [of "[''id'' \<mapsto> JStr '''']" False alice_db]
  by simp

section \<open>Signing in\<close>

text \<open>
  C9. Unless the engine fails, a sign-in is answered with 200, whether or not a row has the
  (entryId, timesheetRow) of the request.
\<close>

theorem signIn_reports_success:
  "\<not> err \<Longrightarrow> fst (timesheets_signIn err b st) = Reply 200 (Msg ''SignIn successful'')"
  by (simp add: timesheets_signIn_def db_run_def update_timesheets_def)

theorem signIn_reports_success_witness:
  "filter (row_is (bind (JNum 7)) (bind (JNum 3))) (timesheets alice_db) = []
   \<and> timesheets_signIn False
        [''entryId'' \<mapsto> JNum 7, ''timesheetRow'' \<mapsto> JNum 3, ''roomNumber'' \<mapsto> JNum 101,
         ''signIn'' \<mapsto> JStr ''2024-01-01T09:00''] alice_db
     = (Reply 200 (Msg ''SignIn successful''), alice_db)"
  using signIn_reports_success [of False
      "[''entryId'' \<mapsto> JNum 7, ''timesheetRow'' \<mapsto> JNum 3, ''roomNumber'' \<mapsto> JNum 101,
        ''signIn'' \<mapsto> JStr ''2024-01-01T09:00'']" alice_db]
  by (simp add: alice_db_eq run)

section \<open>Deleting the last row of an entry\<close>

lemma fold_max_absorb: "\<forall>i\<in>set ids. i \<le> (a::int) \<Longrightarrow> fold max ids a = a"
  by (induction ids) (auto simp add: max_absorb2)

lemma same_id_same_row:
  assumes "distinct (map id_ts ts)" and "r \<in> set ts" and "v \<in> set ts"
  shows "id_ts r = id_ts v \<longleftrightarrow> r = v"
  using assms by (meson distinct_map inj_on_eq_iff)

text \<open>
  The rows \<open>vs\<close> selected for deletion are all the rows of one entry: the trigger stays
  quiet until the last of them is gone, and then inserts row zero once.
\<close>

lemma delete_all_rows_of_entry:
  assumes "distinct (map id_ts (timesheets st))"
    and "distinct vs" and "vs \<noteq> []" and "set vs \<subseteq> set (timesheets st)"
    and "ev \<noteq> SNull"
    and "\<forall>r\<in>set (timesheets st). entryId r = ev \<longleftrightarrow> r \<in> set vs"
  shows "delete_timesheet_rows vs st
         = insert_timesheet ev (SInt 0) SNull SNull SNull
             (st\<lparr>timesheets := filter (\<lambda>r. entryId r \<noteq> ev) (timesheets st)\<rparr>)"
  using assms
proof (induction vs arbitrary: st)
  case Nil
  then show ?case by simp
next
  case (Cons v rest)
  define ts where "ts = timesheets st"
  define ts1 where "ts1 = filter (\<lambda>x. id_ts x \<noteq> id_ts v) ts"
  have dts: "distinct (map id_ts ts)" and v_in: "v \<in> set ts" and v_ev: "entryId v = ev"
    and all: "\<forall>r\<in>set ts. entryId r = ev \<longleftrightarrow> r \<in> set (v # rest)"
    using Cons.prems by (auto simp add: ts_def)
  have ts1_eq: "ts1 = filter (\<lambda>x. x \<noteq> v) ts"
    unfolding ts1_def using same_id_same_row [OF dts _ v_in] by (auto intro: filter_cong)
  show ?case
  proof (cases "rest = []")
    case True
    have "ts1 = filter (\<lambda>r. entryId r \<noteq> ev) ts"
      unfolding ts1_eq using all True by (auto intro: filter_cong)
    then show ?thesis
      using True v_ev Cons.prems(5)
      by (simp add: after_last_timesheetRow_delete_def ts1_def ts_def sql_eq_iff filter_empty_conv
          split: option.splits)
  next
    case False
    then obtain v' where v': "v' \<in> set rest" by (cases rest) auto
    have "v' \<noteq> v" using v' Cons.prems(2) by auto
    moreover have "v' \<in> set ts" using v' Cons.prems(4) by (auto simp add: ts_def)
    moreover have "entryId v' = ev" using all v' \<open>v' \<in> set ts\<close> by auto
    ultimately have "v' \<in> set (filter (\<lambda>r. sql_eq (entryId r) (entryId v)) ts1)"
      using v_ev Cons.prems(5) by (simp add: ts1_eq sql_eq_iff)
    then have "filter (\<lambda>r. sql_eq (entryId r) (entryId v)) ts1 \<noteq> []"
      by (cases "filter (\<lambda>r. sql_eq (entryId r) (entryId v)) ts1") simp_all
    then have quiet: "after_last_timesheetRow_delete v (st\<lparr>timesheets := ts1\<rparr>)
                      = Some (st\<lparr>timesheets := ts1\<rparr>)"
      by (simp add: after_last_timesheetRow_delete_def)
    have d1: "distinct (map id_ts (timesheets (st\<lparr>timesheets := ts1\<rparr>)))"
      using dts by (simp add: ts1_def distinct_map_filter)
    have d2: "distinct rest" using Cons.prems(2) by simp
    have s1: "set rest \<subseteq> set (timesheets (st\<lparr>timesheets := ts1\<rparr>))"
      using Cons.prems(2,4) by (auto simp add: ts1_eq ts_def)
    have a1: "\<forall>r\<in>set (timesheets (st\<lparr>timesheets := ts1\<rparr>)). entryId r = ev \<longleftrightarrow> r \<in> set rest"
      using all by (auto simp add: ts1_eq)
    have keep: "filter (\<lambda>r. entryId r \<noteq> ev) ts1 = filter (\<lambda>r. entryId r \<noteq> ev) ts"
      unfolding ts1_eq using v_ev by (auto intro: filter_cong)
    have "delete_timesheet_rows (v # rest) st = delete_timesheet_rows rest (st\<lparr>timesheets := ts1\<rparr>)"
      using quiet by (simp add: ts1_def ts_def)
    also have "\<dots> = insert_timesheet ev (SInt 0) SNull SNull SNull
                      (st\<lparr>timesheets := ts1\<rparr>
                         \<lparr>timesheets := filter (\<lambda>r. entryId r \<noteq> ev)
                                          (timesheets (st\<lparr>timesheets := ts1\<rparr>))\<rparr>)"
      by (rule Cons.IH [OF d1 d2 False s1 Cons.prems(5) a1])
    finally show ?thesis by (simp add: keep ts_def)
  qed
qed

lemma deleteRow_last:
  assumes wf: "distinct (map id_ts (timesheets st))"
    and hit: "filter (row_is p k) (timesheets st) \<noteq> []"
    and last: "\<forall>r\<in>set (timesheets st).
                 sql_eq (entryId r) (int_affinity p) \<longrightarrow> sql_eq (timesheetRow r) (int_affinity k)"
  shows "delete_from_timesheets (row_is p k) st
         = Some (length (filter (row_is p k) (timesheets st)),
             st\<lparr>timesheets := filter (\<lambda>r. entryId r \<noteq> int_affinity p) (timesheets st)
                   @ [row_zero (next_rowid (timesheets_seq st)
                          (map id_ts (filter (\<lambda>r. entryId r \<noteq> int_affinity p) (timesheets st))))
                        (int_affinity p)],
                 timesheets_seq := next_rowid (timesheets_seq st)
                          (map id_ts (filter (\<lambda>r. entryId r \<noteq> int_affinity p) (timesheets st)))\<rparr>)"
proof -
  define vs where "vs = filter (row_is p k) (timesheets st)"
  have "vs \<noteq> []" using hit by (simp add: vs_def)
  then obtain v where "v \<in> set vs" by (cases vs) auto
  then have nn: "int_affinity p \<noteq> SNull"
    by (auto simp add: vs_def row_is_def sql_eq_iff)
  have "distinct (timesheets st)" using wf by (simp add: distinct_map)
  then have dv: "distinct vs" by (simp add: vs_def)
  have sub: "set vs \<subseteq> set (timesheets st)" by (auto simp add: vs_def)
  have all: "\<forall>r\<in>set (timesheets st). entryId r = int_affinity p \<longleftrightarrow> r \<in> set vs"
    using last nn by (auto simp add: vs_def row_is_def sql_eq_iff)
  have "delete_timesheet_rows vs st
        = insert_timesheet (int_affinity p) (SInt 0) SNull SNull SNull
            (st\<lparr>timesheets := filter (\<lambda>r. entryId r \<noteq> int_affinity p) (timesheets st)\<rparr>)"
    using hit by (intro delete_all_rows_of_entry [OF wf dv _ sub nn all]) (simp add: vs_def)
  then show ?thesis
    using nn
    by (simp add: delete_from_timesheets_def vs_def [symmetric] insert_timesheet_def Let_def
        row_zero_def int_affinity_idem)
qed

lemma deleteRow_last_twice:
  assumes wf: "distinct (map id_ts (timesheets st))"
    and hit: "filter (row_is (bind (field b ''entryId'')) (bind (field b ''timesheetRow'')))
                (timesheets st) \<noteq> []"
    and last: "\<forall>r\<in>set (timesheets st).
                 sql_eq (entryId r) (int_affinity (bind (field b ''entryId'')))
                 \<longrightarrow> sql_eq (timesheetRow r) (int_affinity (bind (field b ''timesheetRow'')))"
    and again: "field b0 ''entryId'' = field b ''entryId''"
               "int_affinity (bind (field b0 ''timesheetRow'')) = SInt 0"
    and ev: "ev = int_affinity (bind (field b ''entryId''))"
    and others: "others = filter (\<lambda>r. entryId r \<noteq> ev) (timesheets st)"
    and n: "n = next_rowid (timesheets_seq st) (map id_ts others)"
  shows "timesheets_deleteRow False b st
           = (Reply 200 (Msg ''Row deleted successfully''),
              st\<lparr>timesheets := others @ [row_zero n ev], timesheets_seq := n\<rparr>)
       \<and> timesheets_deleteRow False b0
             (st\<lparr>timesheets := others @ [row_zero n ev], timesheets_seq := n\<rparr>)
           = (Reply 200 (Msg ''Row deleted successfully''),
              st\<lparr>timesheets := others @ [row_zero (n + 1) ev], timesheets_seq := n + 1\<rparr>)"
proof -
  define p where "p = bind (field b ''entryId'')"
  define k where "k = bind (field b ''timesheetRow'')"
  define k0 where "k0 = bind (field b0 ''timesheetRow'')"
  define st1 where "st1 = st\<lparr>timesheets := others @ [row_zero n ev], timesheets_seq := n\<rparr>"
  have first: "delete_from_timesheets (row_is p k) st
               = Some (length (filter (row_is p k) (timesheets st)), st1)"
    using deleteRow_last [of st p k] wf hit last
    by (simp add: p_def k_def st1_def ev others n)
  have "filter (row_is p k) (timesheets st) \<noteq> []" using hit by (simp add: p_def k_def)
  then obtain v where "v \<in> set (filter (row_is p k) (timesheets st))"
    by (cases "filter (row_is p k) (timesheets st)") auto
  then have nn: "ev \<noteq> SNull" by (auto simp add: row_is_def sql_eq_iff ev p_def)
  have below: "\<forall>i\<in>set (map id_ts others). i < n"
    using next_rowid_fresh [of _ "map id_ts others" "timesheets_seq st"] by (simp add: n)
  have wf1: "distinct (map id_ts (timesheets st1))"
    using wf below by (auto simp add: st1_def others distinct_map_filter row_zero_def)
  have zero: "row_is p k0 (row_zero n ev)"
    using nn again(2) by (simp add: row_is_def row_zero_def sql_eq_iff ev p_def k0_def)
  have hit1: "filter (row_is p k0) (timesheets st1) \<noteq> []"
    using zero by (simp add: st1_def)
  have last1: "\<forall>r\<in>set (timesheets st1).
                 sql_eq (entryId r) (int_affinity p) \<longrightarrow> sql_eq (timesheetRow r) (int_affinity k0)"
    using again(2) by (auto simp add: st1_def others sql_eq_iff ev p_def k0_def row_zero_def)
  have keep: "filter (\<lambda>r. entryId r \<noteq> int_affinity p) (timesheets st1) = others"
    by (simp add: st1_def others ev p_def row_zero_def)
  have "fold max (map id_ts others) n = n"
    using below by (intro fold_max_absorb) auto
  then have next1: "next_rowid (timesheets_seq st1) (map id_ts others) = n + 1"
    by (simp add: next_rowid_def st1_def)
  have second: "delete_from_timesheets (row_is p k0) st1
                = Some (length (filter (row_is p k0) (timesheets st1)),
                    st\<lparr>timesheets := others @ [row_zero (n + 1) ev], timesheets_seq := n + 1\<rparr>)"
    using deleteRow_last [OF wf1 hit1 last1]
    by (simp add: keep next1) (simp add: st1_def ev p_def)
  show ?thesis
    using first second again(1)
    by (simp add: timesheets_deleteRow_def db_run_def p_def k_def k0_def st1_def)
qed

text \<open>
  C2, as amended. The keys of the request are integers. A deleteRow that removes every row
  an entry has (at least one) leaves the rows of the other entries and one fresh row zero
  for this entry, with a new id from the counter. Deleting that row zero again gives the
  same state but for that id and the counter, which are one higher each time. (No two
  stored rows share an id: it is the primary key.)
\<close>

theorem timesheets_deleteRow_last_row:
  assumes wf: "distinct (map id_ts (timesheets st))"
    and keys: "int_key (field b ''entryId'') = Some i" "int_key (field b ''timesheetRow'') = Some k"
    and hit: "filter (\<lambda>r. entryId r = SInt i \<and> timesheetRow r = SInt k) (timesheets st) \<noteq> []"
    and last: "\<forall>r\<in>set (timesheets st). entryId r = SInt i \<longrightarrow> timesheetRow r = SInt k"
    and again: "field b0 ''entryId'' = field b ''entryId''"
               "int_key (field b0 ''timesheetRow'') = Some 0"
    and others: "others = filter (\<lambda>r. entryId r \<noteq> SInt i) (timesheets st)"
    and n: "n = next_rowid (timesheets_seq st) (map id_ts others)"
  shows "timesheets_deleteRow False b st
           = (Reply 200 (Msg ''Row deleted successfully''),
              st\<lparr>timesheets := others @ [row_zero n (SInt i)], timesheets_seq := n\<rparr>)
       \<and> timesheets_deleteRow False b0
             (st\<lparr>timesheets := others @ [row_zero n (SInt i)], timesheets_seq := n\<rparr>)
           = (Reply 200 (Msg ''Row deleted successfully''),
              st\<lparr>timesheets := others @ [row_zero (n + 1) (SInt i)], timesheets_seq := n + 1\<rparr>)"
proof -
  have ev: "SInt i = int_affinity (bind (field b ''entryId''))"
    using keys(1) by (simp add: int_key_bind)
  have kv: "int_affinity (bind (field b ''timesheetRow'')) = SInt k"
    using keys(2) by (simp add: int_key_bind)
  have "filter (row_is (bind (field b ''entryId'')) (bind (field b ''timesheetRow'')))
          (timesheets st)
        = filter (\<lambda>r. entryId r = SInt i \<and> timesheetRow r = SInt k) (timesheets st)"
    using row_is_int_key [OF keys] by (auto intro: filter_cong)
  then have hit': "filter (row_is (bind (field b ''entryId'')) (bind (field b ''timesheetRow'')))
                     (timesheets st) \<noteq> []"
    using hit by simp
  have last': "\<forall>r\<in>set (timesheets st).
                 sql_eq (entryId r) (int_affinity (bind (field b ''entryId'')))
                 \<longrightarrow> sql_eq (timesheetRow r) (int_affinity (bind (field b ''timesheetRow'')))"
    using last by (simp add: ev [symmetric] kv sql_eq_iff)
  have zero: "int_affinity (bind (field b0 ''timesheetRow'')) = SInt 0"
    using again(2) by (simp add: int_key_bind)
  show ?thesis
    by (rule deleteRow_last_twice [OF wf hit' last' again(1) zero ev others n])
qed

theorem timesheets_deleteRow_last_row_witness:
  "timesheets_deleteRow False [''entryId'' \<mapsto> JNum 1, ''timesheetRow'' \<mapsto> JNum 0] alice_bob_db
     = (Reply 200 (Msg ''Row deleted successfully''),
        alice_bob_db\<lparr>timesheets := [row_zero 2 (SInt 2), row_zero 3 (SInt 1)], timesheets_seq := 3\<rparr>)
   \<and> timesheets_deleteRow False [''entryId'' \<mapsto> JNum 1, ''timesheetRow'' \<mapsto> JNum 0]
        (alice_bob_db\<lparr>timesheets := [row_zero 2 (SInt 2), row_zero 3 (SInt 1)], timesheets_seq := 3\<rparr>)
     = (Reply 200 (Msg ''Row deleted successfully''),
        alice_bob_db\<lparr>timesheets := [row_zero 2 (SInt 2), row_zero 4 (SInt 1)], timesheets_seq := 4\<rparr>)"
proof -
  let ?b = "[''entryId'' \<mapsto> JNum 1, ''timesheetRow'' \<mapsto> JNum 0]"
  have wf: "distinct (map id_ts (timesheets alice_bob_db))"
    by (simp add: alice_bob_db_eq row_zero_def)
  have k1: "int_key (field ?b ''entryId'') = Some 1"
    and k0: "int_key (field ?b ''timesheetRow'') = Some 0"
    by (simp_all add: field_def safe_int_def)
  have hit: "filter (\<lambda>r. entryId r = SInt 1 \<and> timesheetRow r = SInt 0) (timesheets alice_bob_db)
             \<noteq> []"
    by (simp add: alice_bob_db_eq row_zero_def)
  have last: "\<forall>r\<in>set (timesheets alice_bob_db). entryId r = SInt 1 \<longrightarrow> timesheetRow r = SInt 0"
    by (simp add: alice_bob_db_eq row_zero_def)
  have others: "[row_zero 2 (SInt 2)]
                = filter (\<lambda>r. entryId r \<noteq> SInt 1) (timesheets alice_bob_db)"
    by (simp add: alice_bob_db_eq row_zero_def)
  have n: "3 = next_rowid (timesheets_seq alice_bob_db) (map id_ts [row_zero 2 (SInt 2)])"
    by (simp add: alice_bob_db_eq row_zero_def next_rowid_def)
  show ?thesis
    using timesheets_deleteRow_last_row [OF wf k1 k0 hit last refl k0 others n] by simp
qed

text \<open>
  The claim as written fails: deleting the replacement row does not reproduce the state,
  since the next replacement has another id (and the listing of the rows shows it).
\<close>

theorem timesheets_deleteRow_not_idempotent:
  "snd (timesheets_deleteRow False [''entryId'' \<mapsto> JNum 1, ''timesheetRow'' \<mapsto> JNum 0]
          (snd (timesheets_deleteRow False [''entryId'' \<mapsto> JNum 1, ''timesheetRow'' \<mapsto> JNum 0]
                  alice_db)))
     \<noteq> snd (timesheets_deleteRow False [''entryId'' \<mapsto> JNum 1, ''timesheetRow'' \<mapsto> JNum 0]
              alice_db)
   \<and> timesheets_entryId False ''1''
        (snd (timesheets_deleteRow False [''entryId'' \<mapsto> JNum 1, ''timesheetRow'' \<mapsto> JNum 0]
                alice_db))
     = Reply 200 (Rows [row_zero 2 (SInt 1)])
   \<and> timesheets_entryId False ''1''
        (snd (timesheets_deleteRow False [''entryId'' \<mapsto> JNum 1, ''timesheetRow'' \<mapsto> JNum 0]
          (snd (timesheets_deleteRow False [''entryId'' \<mapsto> JNum 1, ''timesheetRow'' \<mapsto> JNum 0]
                  alice_db))))
     = Reply 200 (Rows [row_zero 3 (SInt 1)])"
  by (simp add: alice_db_eq run)

section \<open>Deleting an entry\<close>

text \<open>
  The DELETE of the trigger \<^verbatim>\<open>after_entry_delete\<close> removes every row of the entry, so
  the trigger \<^verbatim>\<open>after_last_timesheetRow_delete\<close> fires on the last of them: an entry
  that had rows leaves one row zero behind.
\<close>

lemma after_entry_delete_leaves_row_zero:
  assumes "distinct (map id_ts (timesheets st))"
    and "filter (\<lambda>r. entryId r = SInt (id_col e)) (timesheets st) \<noteq> []"
  shows "after_entry_delete e st
         = Some (st\<lparr>timesheets := filter (\<lambda>r. entryId r \<noteq> SInt (id_col e)) (timesheets st)
                   @ [row_zero (next_rowid (timesheets_seq st)
                          (map id_ts (filter (\<lambda>r. entryId r \<noteq> SInt (id_col e)) (timesheets st))))
                        (SInt (id_col e))],
                 timesheets_seq := next_rowid (timesheets_seq st)
                          (map id_ts (filter (\<lambda>r. entryId r \<noteq> SInt (id_col e)) (timesheets st)))\<rparr>)"
proof -
  define vs where "vs = filter (\<lambda>r. sql_eq (entryId r) (SInt (id_col e))) (timesheets st)"
  have vs_eq: "vs = filter (\<lambda>r. entryId r = SInt (id_col e)) (timesheets st)"
    by (auto simp add: vs_def sql_eq_iff intro: filter_cong)
  have "distinct (timesheets st)" using assms(1) by (simp add: distinct_map)
  then have dv: "distinct vs" by (simp add: vs_def)
  have ne: "vs \<noteq> []" using assms(2) by (simp add: vs_eq)
  have "delete_timesheet_rows vs st
        = insert_timesheet (SInt (id_col e)) (SInt 0) SNull SNull SNull
            (st\<lparr>timesheets := filter (\<lambda>r. entryId r \<noteq> SInt (id_col e)) (timesheets st)\<rparr>)"
    by (rule delete_all_rows_of_entry [OF assms(1) dv ne]) (auto simp add: vs_eq)
  then show ?thesis
    by (simp add: after_entry_delete_def delete_from_timesheets_def vs_def [symmetric]
        insert_timesheet_def Let_def row_zero_def)
qed

text \<open>
  C3 fails on the code. After Alice (entry 1) is deleted, the listing of her timesheet rows
  is not empty: it holds a row zero that the second trigger has just made.
\<close>

theorem delete_data_leaves_row_zero:
  "delete_data False [''id'' \<mapsto> JNum 1] alice_db
     = (Reply 200 (Msg ''Entry deleted''),
        alice_db\<lparr>entries := [], timesheets := [row_zero 2 (SInt 1)], timesheets_seq := 2\<rparr>)
   \<and> timesheets_entryId False ''1'' (snd (delete_data False [''id'' \<mapsto> JNum 1] alice_db))
     = Reply 200 (Rows [\<lparr>id_ts = 2, entryId = SInt 1, timesheetRow = SInt 0,
                          roomNumber_ts = SNull, signIn = SNull, signOut = SNull\<rparr>])"
  by (simp add: alice_db_eq run)

section \<open>Deleting an image\<close>

text \<open>
  When no entry has the id of the request, the file is removed and then reading
  \<^verbatim>\<open>row.images\<close> throws: the store is left without the file, the database as it was, and
  no response is sent.
\<close>

lemma delete_image_unknown_entry:
  assumes "field b ''imageName'' = JStr name"
    and "basename name \<in> uploads st"
    and "basename name \<noteq> []" and "basename name \<noteq> ''.''" and "basename name \<noteq> ''..''"
    and "find (id_is (bind (field b ''entryId''))) (entries st) = None"
  shows "delete_image False False False b st
         = (Uncaught ''TypeError: Cannot read properties of undefined'',
            st\<lparr>uploads := uploads st - {basename name}\<rparr>)"
  using assms by (simp add: delete_image_def unlink_def select_images_def)

text \<open>
  C4 fails on the code. The file is there, no entry has the id 999: the file is removed
  first, as the claim says, but the answer is no NotFoundError (404): the handler throws.
\<close>

theorem delete_image_unknown_entry_throws:
  "delete_image False False False
     [''entryId'' \<mapsto> JNum 999, ''imageName'' \<mapsto> JStr ''/uploads/images-5'']
     (alice_db\<lparr>uploads := {''images-5''}\<rparr>)
   = (Uncaught ''TypeError: Cannot read properties of undefined'', alice_db\<lparr>uploads := {}\<rparr>)"
  by (simp add: alice_db_eq run)

section \<open>Searching\<close>










section \<open>Adding images, then deleting one\<close>

text \<open>
  C6 fails on the code. Two different files that are named within the same millisecond
  both get the name \<^verbatim>\<open>images-5\<close>: the second overwrites the first, both references have
  that base name, and deleting the first removes both, so that the list is the prior list
  and not the prior list extended with the second file. The same happens to an older
  reference with that base name (here \<^verbatim>\<open>uploads/images-5\<close>, the path of a file submitted
  with the entry in that millisecond): it goes with the deleted one.
\<close>

theorem add_image_then_delete_image_removes_more:
  "\<lparr>fieldname = ''images'', originalname = ''a.png'', stamp = 5\<rparr>
     \<noteq> \<lparr>fieldname = ''images'', originalname = ''b.png'', stamp = 5\<rparr>
   \<and> select_images (SText ''1'') alice_db = Some (Some [])
   \<and> fst (add_image False False
            [\<lparr>fieldname = ''images'', originalname = ''a.png'', stamp = 5\<rparr>,
             \<lparr>fieldname = ''images'', originalname = ''b.png'', stamp = 5\<rparr>]
            [''entryId'' \<mapsto> JStr ''1''] alice_db)
     = Reply 200 (MsgImages ''New images added to entry'' [''/uploads/images-5'', ''/uploads/images-5''])
   \<and> fst (delete_image False False False
            [''entryId'' \<mapsto> JStr ''1'', ''imageName'' \<mapsto> JStr ''/uploads/images-5'']
            (snd (add_image False False
                    [\<lparr>fieldname = ''images'', originalname = ''a.png'', stamp = 5\<rparr>,
                     \<lparr>fieldname = ''images'', originalname = ''b.png'', stamp = 5\<rparr>]
                    [''entryId'' \<mapsto> JStr ''1''] alice_db)))
     = Reply 200 (MsgImages ''Image deleted'' [])
   \<and> select_images (SText ''1'')
        (snd (delete_image False False False
            [''entryId'' \<mapsto> JStr ''1'', ''imageName'' \<mapsto> JStr ''/uploads/images-5'']
            (snd (add_image False False
                    [\<lparr>fieldname = ''images'', originalname = ''a.png'', stamp = 5\<rparr>,
                     \<lparr>fieldname = ''images'', originalname = ''b.png'', stamp = 5\<rparr>]
                    [''entryId'' \<mapsto> JStr ''1''] alice_db))))
     = Some (Some [])
   \<and> select_images (SText ''1'')
        (snd (submit_data False [\<lparr>fieldname = ''images'', originalname = ''z.png'', stamp = 5\<rparr>]
                Map.empty empty_db))
     = Some (Some [''uploads/images-5''])
   \<and> select_images (SText ''1'')
        (snd (delete_image False False False
            [''entryId'' \<mapsto> JStr ''1'', ''imageName'' \<mapsto> JStr ''/uploads/images-5'']
            (snd (add_image False False
                    [\<lparr>fieldname = ''images'', originalname = ''a.png'', stamp = 5\<rparr>,
                     \<lparr>fieldname = ''images'', originalname = ''b.png'', stamp = 6\<rparr>]
                    [''entryId'' \<mapsto> JStr ''1'']
                    (snd (submit_data False
                            [\<lparr>fieldname = ''images'', originalname = ''z.png'', stamp = 5\<rparr>]
                            Map.empty empty_db))))))
     = Some (Some [''/uploads/images-6''])"
  by (simp add: alice_db_eq run)

end
